theory Spec2Isabelle
  imports Main
begin

section \<open>Data model\<close>

text \<open>
  A catalog entry (class \<open>MagicMirrorPackage\<close>). The class itself lives in
  \<open>mmpm/models.py\<close>; the five fields are the ones \<open>core.py\<close> reads and writes.
\<close>

record package =
  title :: string
  author :: string
  description :: string
  repository :: string
  directory :: string

text \<open>
  A Python \<open>dict\<close> with string keys keeps insertion order, so it is an association
  list. Assigning to a key that is present replaces the value in place, assigning to a
  new key appends.
\<close>

type_synonym 'a dict = "(string \<times> 'a) list"

type_synonym catalog = "package list dict"

definition keys :: "'a dict \<Rightarrow> string list" where
  "keys d = map fst d"

fun dict_set :: "'a dict \<Rightarrow> string \<Rightarrow> 'a \<Rightarrow> 'a dict" where
  "dict_set [] k v = [(k, v)]"
| "dict_set ((k', v') # d) k v =
     (if k' = k then (k, v) # d else (k', v') # dict_set d k v)"

definition dict_update :: "'a dict \<Rightarrow> 'a dict \<Rightarrow> 'a dict" where
  "dict_update d e = foldl (\<lambda>acc (k, v). dict_set acc k v) d e"

section \<open>Strings\<close>

text \<open>\<open>q in s\<close> on Python strings: \<open>q\<close> occurs in \<open>s\<close> as a contiguous run.\<close>

definition str_in :: "string \<Rightarrow> string \<Rightarrow> bool" where
  "str_in q s = list_ex (\<lambda>i. take (length q) (drop i s) = q) [0 ..< Suc (length s)]"

text \<open>\<open>str.lower\<close>, on the ASCII letters.\<close>

definition lower_char :: "char \<Rightarrow> char" where
  "lower_char c =
     (let n = (of_char c :: nat) in if 65 \<le> n \<and> n \<le> 90 then char_of (n + 32) else c)"

definition lower :: "string \<Rightarrow> string" where
  "lower s = map lower_char s"

section \<open>Exceptions\<close>

text \<open>
  The Python exceptions the modelled code can raise. \<open>SystemExit n\<close> is
  \<open>sys.exit(n)\<close>. A function that can raise returns \<open>exn + 'a\<close>.
\<close>

datatype exn =
    KeyError | TypeError | ValueError | JSONDecodeError | FileNotFoundError | EOFError
  | KeyboardInterrupt | SystemExit int

section \<open>The package class\<close>

text \<open>
  Modelled from the spec: \<open>mmpm/models.py\<close> and \<open>mmpm/consts.py\<close> are not under
  \<open>src/\<close>. A package built without arguments has the placeholder
  \<open>NOT_AVAILABLE\<close> in its descriptive fields and an empty directory ("empty until
  installed or matched"). The value of the placeholder plays no role in any theorem.
\<close>

definition NOT_AVAILABLE :: string where
  "NOT_AVAILABLE = ''N/A''"

definition MagicMirrorPackage :: package where
  "MagicMirrorPackage =
     \<lparr>title = NOT_AVAILABLE, author = NOT_AVAILABLE, description = NOT_AVAILABLE,
      repository = NOT_AVAILABLE, directory = []\<rparr>"

section \<open>The modules directory\<close>

text \<open>\<open>str.strip\<close>: whitespace removed at both ends (the ASCII whitespace).\<close>

definition is_space :: "char \<Rightarrow> bool" where
  "is_space c = ((of_char c :: nat) \<in> {9, 10, 11, 12, 13, 28, 29, 30, 31, 32})"

definition strip :: "string \<Rightarrow> string" where
  "strip s = rev (dropWhile is_space (rev (dropWhile is_space s)))"

text \<open>
  One entry of \<open>os.listdir(MAGICMIRROR_MODULES_DIR)\<close> with what the file system and
  the subprocess collaborator answer for it: whether it is a directory, whether it has a
  \<open>.git\<close> inside, what \<open>os.getcwd()\<close> returns after changing into it, and the
  \<open>(returncode, stdout, stderr)\<close> of \<open>git config --get remote.origin.url\<close> and of
  \<open>basename <url> .git\<close> run there.
\<close>

record module_dir =
  entry_name :: string
  entry_is_dir :: bool
  dot_git :: bool
  getcwd :: string
  git_remote :: "int \<times> string \<times> string"
  basename_cmd :: "int \<times> string \<times> string"

text \<open>
  \<open>utils.py\<close>, \<open>get_existing_package_directories\<close>: the names of the directories in
  the modules directory; the empty list when the modules directory does not exist
  (\<open>None\<close>). \<open>existing_entries\<close> is the same list with the entries kept whole.
\<close>

definition existing_entries :: "module_dir list option \<Rightarrow> module_dir list" where
  "existing_entries modules = (case modules of None \<Rightarrow> [] | Some ds \<Rightarrow> filter entry_is_dir ds)"

definition get_existing_package_directories :: "module_dir list option \<Rightarrow> string list" where
  "get_existing_package_directories modules = map entry_name (existing_entries modules)"

section \<open>get_installed_packages\<close>

text \<open>
  The body of the first loop of \<open>get_installed_packages\<close> for one directory: skipped
  unless it is a directory with a \<open>.git\<close>; skipped with an error message when either
  command returns a non-zero code; otherwise a package with the project name, the
  trimmed remote URL and the directory.
\<close>

definition package_found :: "module_dir \<Rightarrow> package option" where
  "package_found d =
     (if \<not> entry_is_dir d \<or> \<not> dot_git d then None
      else case git_remote d of (error_code, remote_origin_url, _) \<Rightarrow>
        if error_code \<noteq> 0 then None
        else case basename_cmd d of (error_code', project_name, _) \<Rightarrow>
          if error_code' \<noteq> 0 then None
          else Some (MagicMirrorPackage
                 \<lparr>title := strip project_name, repository := strip remote_origin_url,
                  directory := getcwd d\<rparr>))"

definition packages_found :: "module_dir list \<Rightarrow> package list" where
  "packages_found package_dirs = List.map_filter package_found package_dirs"

text \<open>
  The innermost loop for one catalog package. The package is one object: each match
  overwrites its directory and appends the same object again, so after the loop every
  appended reference shows the directory of the last match. The function returns the
  object after the loop and how many times it was appended.
\<close>

fun match_found :: "package \<Rightarrow> package list \<Rightarrow> package \<times> nat" where
  "match_found package [] = (package, 0)"
| "match_found package (found # rest) =
     (if repository package = repository found
      then (case match_found (package\<lparr>directory := directory found\<rparr>) rest of
              (package', n) \<Rightarrow> (package', Suc n))
      else match_found package rest)"

definition installed_in_category :: "package list \<Rightarrow> package list \<Rightarrow> package list" where
  "installed_in_category found pkgs =
     concat (map (\<lambda>package. case match_found package found of
                               (package', n) \<Rightarrow> replicate n package') pkgs)"

text \<open>
  \<open>core.py\<close>, \<open>get_installed_packages\<close>. With no directory at all the result is the
  empty dict; otherwise every category of the catalog is a key of the result (the keys
  of a dict are distinct, so \<open>setdefault\<close> in catalog order is a map over the items).
\<close>

definition get_installed_packages :: "module_dir list option \<Rightarrow> catalog \<Rightarrow> catalog" where
  "get_installed_packages modules packages =
     (let package_dirs = existing_entries modules in
      if package_dirs = [] then []
      else map (\<lambda>(category, pkgs).
                  (category, installed_in_category (packages_found package_dirs) pkgs))
             packages)"

section \<open>search_packages\<close>

text \<open>
  \<open>core.py\<close>, \<open>search_packages\<close>. A query that is a category name returns that
  category alone; otherwise every category is kept, with the packages that match.
\<close>

definition match_package :: "bool \<Rightarrow> bool \<Rightarrow> string \<Rightarrow> package \<Rightarrow> bool" where
  "match_package case_sensitive by_title_only query pkg =
     (if by_title_only then query = title pkg
      else if case_sensitive then
        str_in query (description pkg) \<or> str_in query (title pkg) \<or> str_in query (author pkg)
      else
        str_in query (lower (description pkg)) \<or> str_in query (lower (title pkg))
          \<or> str_in query (lower (author pkg)))"

definition search_packages :: "catalog \<Rightarrow> string \<Rightarrow> bool \<Rightarrow> bool \<Rightarrow> catalog" where
  "search_packages packages query case_sensitive by_title_only =
     (case map_of packages query of
        Some pkgs \<Rightarrow> [(query, pkgs)]
      | None \<Rightarrow>
          (let query' = (if \<not> by_title_only \<and> \<not> case_sensitive then lower query else query)
           in foldl (\<lambda>search_results (category, pkgs).
                 dict_set search_results category
                   (filter (match_package case_sensitive by_title_only query') pkgs))
               [] packages))"

section \<open>Console and prompts\<close>

text \<open>
  What the user does at one \<open>input()\<close>: types a line, or presses Ctrl-C (the call
  raises \<open>KeyboardInterrupt\<close>). The lines still to come are the \<open>stdin\<close> of the
  state; when none is left \<open>input()\<close> raises \<open>EOFError\<close>. What the program reports
  or runs is appended to \<open>trace\<close>.
\<close>

datatype user_input = Line string | CtrlC

datatype event =
    ErrorMsg string
  | WarningMsg string
  | ConflictMsg string string
  | CloneCmd string string string
  | DependenciesCmd string
  | RemoveDirCmd string

record io =
  stdin :: "user_input list"
  trace :: "event list"

definition emit :: "event \<Rightarrow> io \<Rightarrow> io" where
  "emit e s = s\<lparr>trace := trace s @ [e]\<rparr>"

text \<open>
  \<open>utils.py\<close>, \<open>prompt_user\<close>, with the default \<open>valid_ack = ['yes', 'y']\<close> and
  \<open>valid_nack = ['no', 'n']\<close>. The loop condition compares a string with a tuple of
  lists and is always true, so the loop ends only by a \<open>return\<close>. The handler turns a
  \<open>KeyboardInterrupt\<close> into the answer \<open>False\<close>.
\<close>

fun prompt_loop :: "user_input list \<Rightarrow> io \<Rightarrow> (exn + bool) \<times> io" where
  "prompt_loop [] s = (Inl EOFError, s\<lparr>stdin := []\<rparr>)"
| "prompt_loop (CtrlC # rest) s = (Inr False, s\<lparr>stdin := rest\<rparr>)"
| "prompt_loop (Line response # rest) s =
     (if response \<in> set [''yes'', ''y''] then (Inr True, s\<lparr>stdin := rest\<rparr>)
      else if response \<in> set [''no'', ''n''] then (Inr False, s\<lparr>stdin := rest\<rparr>)
      else prompt_loop rest (emit (WarningMsg ''Respond with [yes/y] or [no/n]'') s))"

definition prompt_user :: "bool \<Rightarrow> io \<Rightarrow> (exn + bool) \<times> io" where
  "prompt_user assume_yes s = (if assume_yes then (Inr True, s) else prompt_loop (stdin s) s)"

text \<open>
  \<open>utils.py\<close>, \<open>keyboard_interrupt_log\<close> and \<open>fatal_msg\<close>: both end in
  \<open>sys.exit(127)\<close>.
\<close>

definition keyboard_interrupt_log :: exn where
  "keyboard_interrupt_log = SystemExit 127"

definition fatal_msg :: exn where
  "fatal_msg = SystemExit 127"

section \<open>install_packages\<close>

text \<open>\<open>os.path.join\<close> of two components.\<close>

definition path_join :: "string \<Rightarrow> string \<Rightarrow> string" where
  "path_join a b =
     (if b \<noteq> [] \<and> hd b = CHR ''/'' then b
      else if a = [] \<or> last a = CHR ''/'' then a @ b
      else a @ ''/'' @ b)"

text \<open>
  The subprocess collaborator, as far as an installation needs it: what
  \<open>utils.clone(title, repository, target)\<close> returns and what
  \<open>utils.install_dependencies(directory)\<close> returns (the error text, empty on
  success). Either can be interrupted by the user (\<open>Inl KeyboardInterrupt\<close>).
  \<open>os.path.normpath\<close> of the clone target is left to the collaborator.
\<close>

record install_env =
  clone :: "string \<Rightarrow> string \<Rightarrow> string \<Rightarrow> exn + (int \<times> string \<times> string)"
  install_dependencies :: "string \<Rightarrow> exn + string"

text \<open>\<open>core.py\<close>, \<open>install_package\<close>; \<open>modules_dir\<close> is \<open>MAGICMIRROR_MODULES_DIR\<close>.\<close>

definition install_package ::
  "install_env \<Rightarrow> string \<Rightarrow> bool \<Rightarrow> package \<Rightarrow> io \<Rightarrow> (exn + (bool \<times> string)) \<times> io" where
  "install_package env modules_dir assume_yes package s =
     (let target = (if directory package \<noteq> [] then directory package
                    else path_join modules_dir (title package));
          s1 = emit (CloneCmd (title package) (repository package) target) s
      in case clone env (title package) (repository package) target of
           Inl e \<Rightarrow> (Inl e, s1)
         | Inr (error_code, _, stderr) \<Rightarrow>
             if error_code \<noteq> 0 then (Inr (False, stderr), emit (ErrorMsg stderr) s1)
             else
               (let s2 = emit (DependenciesCmd (directory package)) s1
                in case install_dependencies env (directory package) of
                     Inl e \<Rightarrow> (Inl e, s2)
                   | Inr error \<Rightarrow>
                       if error \<noteq> [] then
                         (case prompt_user assume_yes (emit (ErrorMsg error) s2) of
                            (Inl e, s3) \<Rightarrow> (Inl e, s3)
                          | (Inr yes, s3) \<Rightarrow>
                              if yes then
                                (Inr (False, error), emit (RemoveDirCmd (directory package)) s3)
                              else (Inr (False, error), s3))
                       else (Inr (True, []), s2)))"

text \<open>
  Modelled from the spec: \<open>MagicMirrorPackage.__eq__\<close> is in \<open>mmpm/models.py\<close>, which
  is not under \<open>src/\<close>. A candidate the user declined is replaced by an empty package;
  the comparison \<open>package == None\<close> recognises it, and the candidate is skipped.
\<close>

definition eq_None :: "package \<Rightarrow> bool" where
  "eq_None package = (package = MagicMirrorPackage)"

text \<open>The first loop of \<open>install_packages\<close>: one prompt for each candidate.\<close>

fun confirm_candidates ::
  "bool \<Rightarrow> package list \<Rightarrow> io \<Rightarrow> (exn + package list) \<times> io" where
  "confirm_candidates assume_yes [] s = (Inr [], s)"
| "confirm_candidates assume_yes (candidate # rest) s =
     (case prompt_user assume_yes s of
        (Inl e, s1) \<Rightarrow> (Inl e, s1)
      | (Inr answer, s1) \<Rightarrow>
          (case confirm_candidates assume_yes rest s1 of
             (Inl e, s2) \<Rightarrow> (Inl e, s2)
           | (Inr rest', s2) \<Rightarrow>
               (Inr ((if answer then candidate else MagicMirrorPackage) # rest'), s2)))"

text \<open>
  The inner loop over \<open>existing_module_dirs\<close>: it reports a conflict for each entry
  equal to the package's directory. Its \<open>continue\<close> continues this inner loop, so
  the loop has no other effect.
\<close>

fun report_conflicts :: "package \<Rightarrow> string list \<Rightarrow> io \<Rightarrow> io" where
  "report_conflicts package [] s = s"
| "report_conflicts package (existing_dir # rest) s =
     report_conflicts package rest
       (if directory package = existing_dir
        then emit (ConflictMsg (title package) (directory package)) s else s)"

text \<open>
  The second loop of \<open>install_packages\<close>; it returns \<open>existing_module_dirs\<close>, to
  which the title of every installed package has been appended. An interruption of
  \<open>install_package\<close> removes the directory and exits.
\<close>

fun install_candidates ::
  "install_env \<Rightarrow> string \<Rightarrow> bool \<Rightarrow> package list \<Rightarrow> string list \<Rightarrow> io
     \<Rightarrow> (exn + string list) \<times> io" where
  "install_candidates env modules_dir assume_yes [] existing_module_dirs s =
     (Inr existing_module_dirs, s)"
| "install_candidates env modules_dir assume_yes (candidate # rest) existing_module_dirs s =
     (if eq_None candidate
      then install_candidates env modules_dir assume_yes rest existing_module_dirs s
      else
        (let package = candidate\<lparr>directory := path_join modules_dir (title candidate)\<rparr>;
             s1 = report_conflicts package existing_module_dirs s
         in case install_package env modules_dir assume_yes package s1 of
              (Inl KeyboardInterrupt, s2) \<Rightarrow>
                (Inl keyboard_interrupt_log, emit (RemoveDirCmd (directory package)) s2)
            | (Inl e, s2) \<Rightarrow> (Inl e, s2)
            | (Inr (success, _), s2) \<Rightarrow>
                install_candidates env modules_dir assume_yes rest
                  (if success then existing_module_dirs @ [title package]
                   else existing_module_dirs) s2))"

text \<open>
  \<open>core.py\<close>, \<open>install_packages\<close>. \<open>modules\<close> is the content of the modules
  directory, \<open>None\<close> when the directory does not exist.
\<close>

definition install_packages ::
  "install_env \<Rightarrow> string \<Rightarrow> module_dir list option \<Rightarrow> package list \<Rightarrow> bool \<Rightarrow> io
     \<Rightarrow> (exn + bool) \<times> io" where
  "install_packages env modules_dir modules installation_candidates assume_yes s =
     (if modules = None then (Inr False, emit (ErrorMsg ''MagicMirror directory not found'') s)
      else if installation_candidates = [] then
        (Inr False, emit (ErrorMsg ''Unable to match query any to installation candidates'') s)
      else
        (case confirm_candidates assume_yes installation_candidates s of
           (Inl e, s1) \<Rightarrow> (Inl e, s1)
         | (Inr candidates, s1) \<Rightarrow>
             (let existing_module_dirs = get_existing_package_directories modules;
                  starting_count = length existing_module_dirs
              in case install_candidates env modules_dir assume_yes candidates
                        existing_module_dirs s1 of
                   (Inl e, s2) \<Rightarrow> (Inl e, s2)
                 | (Inr existing_module_dirs', s2) \<Rightarrow>
                     (Inr (length existing_module_dirs' \<noteq> starting_count), s2))))"

section \<open>Python values and files\<close>

text \<open>
  The values \<open>json.load\<close> produces, and \<open>PPkg\<close> for a \<open>MagicMirrorPackage\<close> object
  held in a document in memory. A file is absent (\<open>None\<close>), or holds text that is not
  JSON (\<open>Garbage\<close>, the empty text for a file of length zero), or holds the JSON text
  of a value.
\<close>

datatype pyval =
    PNone | PBool bool | PInt int | PStr string
  | PList "pyval list" | PDict "(string \<times> pyval) list" | PPkg package

datatype fcontent = Garbage string | Json pyval

type_synonym pyfile = "fcontent option"

text \<open>\<open>os.path.exists(f) and bool(os.stat(f).st_size)\<close>: a JSON text is never empty.\<close>

definition exists_nonempty :: "pyfile \<Rightarrow> bool" where
  "exists_nonempty f =
     (case f of None \<Rightarrow> False | Some (Garbage text) \<Rightarrow> text \<noteq> [] | Some (Json _) \<Rightarrow> True)"

text \<open>\<open>json.load\<close> on an open file.\<close>

definition json_load :: "pyfile \<Rightarrow> exn + pyval" where
  "json_load f =
     (case f of None \<Rightarrow> Inl FileNotFoundError
      | Some (Garbage _) \<Rightarrow> Inl JSONDecodeError
      | Some (Json v) \<Rightarrow> Inr v)"

text \<open>The first exception of a list of results, or all the values.\<close>

fun collect :: "(exn + 'a) list \<Rightarrow> exn + 'a list" where
  "collect [] = Inr []"
| "collect (Inl e # _) = Inl e"
| "collect (Inr x # rest) = (case collect rest of Inl e \<Rightarrow> Inl e | Inr xs \<Rightarrow> Inr (x # xs))"

text \<open>
  Modelled from the spec: the constructor and the serialisers of \<open>MagicMirrorPackage\<close>
  are in \<open>mmpm/models.py\<close>, which is not under \<open>src/\<close>. A package is built from a
  keyword map read from JSON; keys other than the five fields are accepted silently and
  a missing field keeps its default. The record holds strings, so a field of another
  JSON type is reported as \<open>TypeError\<close>. The persisted form of a package is the
  object \<open>{title, author, description, repository, directory}\<close>.
\<close>

definition str_field :: "string \<Rightarrow> string \<Rightarrow> (string \<times> pyval) list \<Rightarrow> exn + string" where
  "str_field key dflt kwargs =
     (case map_of kwargs key of
        None \<Rightarrow> Inr dflt
      | Some (PStr s) \<Rightarrow> Inr s
      | Some _ \<Rightarrow> Inl TypeError)"

definition package_of_kwargs :: "(string \<times> pyval) list \<Rightarrow> exn + package" where
  "package_of_kwargs kwargs =
     (case collect [str_field ''title'' NOT_AVAILABLE kwargs,
                    str_field ''author'' NOT_AVAILABLE kwargs,
                    str_field ''description'' NOT_AVAILABLE kwargs,
                    str_field ''repository'' NOT_AVAILABLE kwargs,
                    str_field ''directory'' [] kwargs] of
        Inr [t, a, d, r, dir] \<Rightarrow>
          Inr \<lparr>title = t, author = a, description = d, repository = r, directory = dir\<rparr>
      | Inr _ \<Rightarrow> Inl TypeError
      | Inl e \<Rightarrow> Inl e)"

definition serialize_full :: "package \<Rightarrow> pyval" where
  "serialize_full pkg =
     PDict [(''title'', PStr (title pkg)), (''author'', PStr (author pkg)),
            (''description'', PStr (description pkg)), (''repository'', PStr (repository pkg)),
            (''directory'', PStr (directory pkg))]"

definition serialize :: "package \<Rightarrow> pyval" where
  "serialize pkg = serialize_full pkg"

text \<open>
  \<open>utils.py\<close>, \<open>list_of_dict_to_list_of_magicmirror_packages\<close>:
  \<open>[MagicMirrorPackage(**pkg) for pkg in list_of_dict]\<close>. The argument of \<open>**\<close> must
  be a mapping; iterating an empty dict or an empty string gives the empty list, and a
  value that cannot be iterated raises \<open>TypeError\<close>.
\<close>

definition package_of_pyval :: "pyval \<Rightarrow> exn + package" where
  "package_of_pyval v = (case v of PDict kwargs \<Rightarrow> package_of_kwargs kwargs | _ \<Rightarrow> Inl TypeError)"

definition list_of_dict_to_list_of_magicmirror_packages :: "pyval \<Rightarrow> exn + package list" where
  "list_of_dict_to_list_of_magicmirror_packages list_of_dict =
     (case list_of_dict of
        PList vs \<Rightarrow> collect (map package_of_pyval vs)
      | PDict kvs \<Rightarrow> (if kvs = [] then Inr [] else Inl TypeError)
      | PStr s \<Rightarrow> (if s = [] then Inr [] else Inl TypeError)
      | _ \<Rightarrow> Inl TypeError)"

section \<open>load_packages\<close>

definition EXTERNAL_PACKAGES :: string where
  "EXTERNAL_PACKAGES = ''External Packages''"

text \<open>
  The files of the catalog store: the snapshot (\<open>MAGICMIRROR_3RD_PARTY_PACKAGES_DB_FILE\<close>),
  its \<open>.bak\<close> sibling and the external-packages file; and what has been reported.
\<close>

record store =
  db_file :: pyfile
  bak_file :: pyfile
  ext_file :: pyfile
  reported :: "event list"

text \<open>
  What the remote answers: \<open>urlopen\<close> raises \<open>HTTPError\<close> or \<open>URLError\<close>, or the page
  is scraped into a dict of categories (the scraper is a collaborator of the core).
\<close>

datatype remote = URLError | Scraped catalog

text \<open>
  \<open>core.py\<close>, \<open>retrieve_packages\<close>. On a network error it calls \<open>fatal_msg\<close>, which
  exits the process; the \<open>return {}\<close> after it is never reached.
\<close>

definition retrieve_packages :: "remote \<Rightarrow> exn + catalog" where
  "retrieve_packages r = (case r of URLError \<Rightarrow> Inl fatal_msg | Scraped packages \<Rightarrow> Inr packages)"

text \<open>\<open>json.dump(packages, db, default=lambda pkg: pkg.serialize())\<close>.\<close>

definition dump_catalog :: "catalog \<Rightarrow> fcontent" where
  "dump_catalog packages =
     Json (PDict (map (\<lambda>(category, pkgs). (category, PList (map serialize pkgs))) packages))"

text \<open>
  Reading the snapshot back: \<open>json.load\<close>, then every category converted to packages.
  An empty list or string has nothing to iterate and stays as it is (an empty, falsy
  value); any other value that is not a dict raises.
\<close>

definition read_catalog :: "pyfile \<Rightarrow> exn + catalog" where
  "read_catalog f =
     (case json_load f of
        Inl e \<Rightarrow> Inl e
      | Inr (PDict kvs) \<Rightarrow>
          collect (map (\<lambda>(category, v).
                     case list_of_dict_to_list_of_magicmirror_packages v of
                       Inl e \<Rightarrow> Inl e | Inr pkgs \<Rightarrow> Inr (category, pkgs)) kvs)
      | Inr (PList vs) \<Rightarrow> (if vs = [] then Inr [] else Inl TypeError)
      | Inr (PStr s) \<Rightarrow> (if s = [] then Inr [] else Inl TypeError)
      | Inr _ \<Rightarrow> Inl TypeError)"

text \<open>
  \<open>core.py\<close>, \<open>load_external_packages\<close>: any exception while reading is caught and
  reported as a warning, and the category is then empty.
\<close>

definition load_external_packages :: "pyfile \<Rightarrow> catalog \<times> event list" where
  "load_external_packages f =
     (case json_load f of
        Inr (PDict kvs) \<Rightarrow>
          (case map_of kvs EXTERNAL_PACKAGES of
             Some v \<Rightarrow>
               (case list_of_dict_to_list_of_magicmirror_packages v of
                  Inr pkgs \<Rightarrow> ([(EXTERNAL_PACKAGES, pkgs)], [])
                | Inl _ \<Rightarrow> ([(EXTERNAL_PACKAGES, [])], [WarningMsg ''Failed to load data''])
               )
           | None \<Rightarrow> ([(EXTERNAL_PACKAGES, [])], [WarningMsg ''Failed to load data'']))
      | _ \<Rightarrow> ([(EXTERNAL_PACKAGES, [])], [WarningMsg ''Failed to load data'']))"

definition report :: "event list \<Rightarrow> store \<Rightarrow> store" where
  "report es w = w\<lparr>reported := reported w @ es\<rparr>"

text \<open>\<open>core.py\<close>, \<open>load_packages\<close>.\<close>

definition load_packages :: "bool \<Rightarrow> remote \<Rightarrow> store \<Rightarrow> (exn + catalog) \<times> store" where
  "load_packages force_refresh r w =
     (let db_exists = exists_nonempty (db_file w);
          w1 = (if db_exists then w\<lparr>bak_file := db_file w\<rparr> else w);
          fetched =
            (if force_refresh \<or> \<not> db_exists then
               (case retrieve_packages r of
                  Inl e \<Rightarrow> (Inl e, w1)
                | Inr packages \<Rightarrow>
                    if packages = []
                    then (Inr [], report [ErrorMsg ''Failed to retrieve packages''] w1)
                    else (Inr packages, w1\<lparr>db_file := Some (dump_catalog packages)\<rparr>))
             else (Inr [], w1))
      in case fetched of
           (Inl e, w2) \<Rightarrow> (Inl e, w2)
         | (Inr packages, w2) \<Rightarrow>
             (case (if packages = [] \<and> db_exists then read_catalog (db_file w2)
                    else Inr packages) of
                Inl e \<Rightarrow> (Inl e, w2)
              | Inr packages' \<Rightarrow>
                  if packages' \<noteq> [] \<and> exists_nonempty (ext_file w2)
                  then (case load_external_packages (ext_file w2) of
                          (external, warnings) \<Rightarrow>
                            (Inr (dict_update packages' external), report warnings w2))
                  else (Inr packages', w2)))"

section \<open>The upgrade ledger\<close>

text \<open>
  The keys of the ledger document (\<open>mmpm/consts.py\<close> is not under \<open>src/\<close>; the
  values of these names play no role beyond being strings).
\<close>

definition MMPM :: string where
  "MMPM = ''mmpm''"

definition MAGICMIRROR :: string where
  "MAGICMIRROR = ''MagicMirror''"

definition PACKAGES :: string where
  "PACKAGES = ''packages''"

text \<open>
  Subscription \<open>v[key]\<close> and item assignment \<open>v[key] = x\<close> with a string key: a
  dict looks the key up (\<open>KeyError\<close> when it is missing) or stores it; every other
  value raises \<open>TypeError\<close>.
\<close>

definition getitem :: "pyval \<Rightarrow> string \<Rightarrow> exn + pyval" where
  "getitem v key =
     (case v of
        PDict kvs \<Rightarrow> (case map_of kvs key of None \<Rightarrow> Inl KeyError | Some x \<Rightarrow> Inr x)
      | _ \<Rightarrow> Inl TypeError)"

definition setitem :: "pyval \<Rightarrow> string \<Rightarrow> pyval \<Rightarrow> exn + pyval" where
  "setitem v key x =
     (case v of PDict kvs \<Rightarrow> Inr (PDict (dict_set kvs key x)) | _ \<Rightarrow> Inl TypeError)"

text \<open>The entry \<open>{PACKAGES: [], MAGICMIRROR: False}\<close> and the reset document.\<close>

definition default_entry :: pyval where
  "default_entry = PDict [(PACKAGES, PList []), (MAGICMIRROR, PBool False)]"

definition reset_document :: "string \<Rightarrow> pyval" where
  "reset_document root = PDict (dict_set [(MMPM, PBool False)] root default_entry)"

text \<open>
  The \<open>try\<close> block of \<open>get_available_upgrades\<close> after \<open>json.load\<close>: the packages of
  the root's entry are replaced by package objects.
\<close>

definition convert_entry :: "string \<Rightarrow> pyval \<Rightarrow> exn + pyval" where
  "convert_entry root upgrades =
     (case getitem upgrades root of
        Inl e \<Rightarrow> Inl e
      | Inr entry \<Rightarrow>
          (case getitem entry PACKAGES of
             Inl e \<Rightarrow> Inl e
           | Inr raw \<Rightarrow>
               (case list_of_dict_to_list_of_magicmirror_packages raw of
                  Inl e \<Rightarrow> Inl e
                | Inr pkgs \<Rightarrow>
                    (case setitem entry PACKAGES (PList (map PPkg pkgs)) of
                       Inl e \<Rightarrow> Inl e
                     | Inr entry' \<Rightarrow> setitem upgrades root entry'))))"

text \<open>
  \<open>core.py\<close>, \<open>get_available_upgrades\<close>, for the ledger file \<open>f\<close>; it returns the
  document and the file as it leaves it. Only \<open>JSONDecodeError\<close> and \<open>KeyError\<close>
  are caught.
\<close>

definition get_available_upgrades :: "string \<Rightarrow> pyfile \<Rightarrow> (exn + pyval) \<times> pyfile" where
  "get_available_upgrades root f =
     (case json_load f of
        Inl JSONDecodeError \<Rightarrow> (Inr (reset_document root), Some (Json (reset_document root)))
      | Inl e \<Rightarrow> (Inl e, f)
      | Inr upgrades \<Rightarrow>
          (case convert_entry root upgrades of
             Inl KeyError \<Rightarrow>
               (case setitem upgrades root default_entry of
                  Inl e \<Rightarrow> (Inl e, Some (Garbage []))
                | Inr upgrades' \<Rightarrow> (Inr upgrades', Some (Json upgrades')))
           | Inl e \<Rightarrow> (Inl e, f)
           | Inr upgrades' \<Rightarrow> (Inr upgrades', f)))"

text \<open>
  Modelled from the spec: \<open>reset_available_upgrades_for_environment\<close> is called by
  \<open>check_for_package_updates\<close> but is not in the \<open>utils.py\<close> under \<open>src/\<close>. It
  clears \<open>packages\<close> and the application flag of the root's entry in the ledger and
  returns whether the reset succeeded; a ledger that cannot be read as a document with
  root keys cannot be reset.
\<close>

definition reset_available_upgrades_for_environment :: "string \<Rightarrow> pyfile \<Rightarrow> bool \<times> pyfile" where
  "reset_available_upgrades_for_environment root f =
     (case json_load f of
        Inr (PDict kvs) \<Rightarrow> (True, Some (Json (PDict (dict_set kvs root default_entry))))
      | _ \<Rightarrow> (False, f))"

section \<open>check_for_package_updates\<close>

text \<open>
  The probe loop of \<open>check_for_package_updates\<close>. \<open>git_fetch directory\<close> is what
  \<open>run_cmd(['git', 'fetch', '--dry-run'])\<close> returns in that directory; the third
  component is the text the code inspects. An interruption exits the process.
\<close>

fun probe_packages ::
  "(string \<Rightarrow> exn + (int \<times> string \<times> string)) \<Rightarrow> package list \<Rightarrow> exn + package list" where
  "probe_packages git_fetch [] = Inr []"
| "probe_packages git_fetch (package # rest) =
     (case git_fetch (directory package) of
        Inl KeyboardInterrupt \<Rightarrow> Inl keyboard_interrupt_log
      | Inl e \<Rightarrow> Inl e
      | Inr (error_code, _, stdout) \<Rightarrow>
          (case probe_packages git_fetch rest of
             Inl e \<Rightarrow> Inl e
           | Inr upgradeable \<Rightarrow>
               Inr (if error_code = 0 \<and> stdout \<noteq> [] then package # upgradeable
                    else upgradeable)))"

text \<open>The write at the end of \<open>check_for_package_updates\<close>.\<close>

definition record_upgradeable :: "string \<Rightarrow> package list \<Rightarrow> pyval \<Rightarrow> exn + pyval" where
  "record_upgradeable root upgradeable upgrades =
     (case upgrades of
        PDict kvs \<Rightarrow>
          (case (if root \<in> set (keys kvs) then Inr upgrades
                 else setitem upgrades root default_entry) of
             Inl e \<Rightarrow> Inl e
           | Inr upgrades1 \<Rightarrow>
               (case getitem upgrades1 root of
                  Inl e \<Rightarrow> Inl e
                | Inr entry \<Rightarrow>
                    (case setitem entry PACKAGES (PList (map serialize_full upgradeable)) of
                       Inl e \<Rightarrow> Inl e
                     | Inr entry' \<Rightarrow> setitem upgrades1 root entry')))
      | _ \<Rightarrow> Inl TypeError)"

text \<open>
  \<open>core.py\<close>, \<open>check_for_package_updates\<close>. \<open>os.chdir\<close> into a modules directory
  that does not exist raises. With nothing installed the ledger entry is reset, and a
  failed reset recreates the ledger file empty.
\<close>

definition check_for_package_updates ::
  "string \<Rightarrow> module_dir list option \<Rightarrow> (string \<Rightarrow> exn + (int \<times> string \<times> string))
     \<Rightarrow> catalog \<Rightarrow> pyfile \<Rightarrow> (exn + package list) \<times> pyfile" where
  "check_for_package_updates root modules git_fetch packages f =
     (if modules = None then (Inl FileNotFoundError, f)
      else
        (let installed_packages = get_installed_packages modules packages;
             any_installed = list_ex (\<lambda>(category, pkgs). pkgs \<noteq> []) installed_packages
         in if \<not> any_installed then
              (case reset_available_upgrades_for_environment root f of
                 (ok, f1) \<Rightarrow> (Inr [], if ok then f1 else Some (Garbage [])))
            else
              (case probe_packages git_fetch (concat (map snd installed_packages)) of
                 Inl e \<Rightarrow> (Inl e, f)
               | Inr upgradeable \<Rightarrow>
                   (case get_available_upgrades root f of
                      (Inl e, f1) \<Rightarrow> (Inl e, f1)
                    | (Inr upgrades, f1) \<Rightarrow>
                        (case record_upgradeable root upgradeable upgrades of
                           Inl e \<Rightarrow> (Inl e, Some (Garbage []))
                         | Inr upgrades' \<Rightarrow> (Inr upgradeable, Some (Json upgrades')))))))"

section \<open>upgrade_available\<close>

text \<open>
  The collaborators of an upgrade: \<open>git pull\<close> and
  \<open>utils.install_dependencies\<close> in a package directory, and the outcome (the error
  text, empty on success) of \<open>upgrade_mmpm\<close> and \<open>upgrade_magicmirror\<close>.
\<close>

record upgrade_env =
  pull :: "string \<Rightarrow> exn + (int \<times> string \<times> string)"
  dependencies :: "string \<Rightarrow> exn + string"
  mmpm_upgrade :: "exn + string"
  magicmirror_upgrade :: "exn + string"

text \<open>\<open>core.py\<close>, \<open>upgrade_package\<close>: the error text, empty when the upgrade succeeded.\<close>

definition upgrade_package :: "upgrade_env \<Rightarrow> package \<Rightarrow> io \<Rightarrow> (exn + string) \<times> io" where
  "upgrade_package env package s =
     (case pull env (directory package) of
        Inl e \<Rightarrow> (Inl e, s)
      | Inr (error_code, _, stderr) \<Rightarrow>
          if error_code \<noteq> 0
          then (Inr stderr,
                emit (ErrorMsg stderr) (emit (ErrorMsg ''Failed to upgrade MagicMirror'') s))
          else
            (case dependencies env (directory package) of
               Inl e \<Rightarrow> (Inl e, s)
             | Inr stderr' \<Rightarrow>
                 if stderr' \<noteq> [] then (Inr stderr', emit (ErrorMsg stderr') s)
                 else (Inr [], s)))"

text \<open>
  What \<open>upgrade_package\<close> returns for a package; it depends on the collaborators
  only, not on the console.
\<close>

definition upgrade_outcome :: "upgrade_env \<Rightarrow> package \<Rightarrow> exn + string" where
  "upgrade_outcome env package =
     (case pull env (directory package) of
        Inl e \<Rightarrow> Inl e
      | Inr (error_code, _, stderr) \<Rightarrow>
          if error_code \<noteq> 0 then Inr stderr else dependencies env (directory package))"

text \<open>Truth value of a Python value, and the package objects of a list.\<close>

definition truthy :: "pyval \<Rightarrow> bool" where
  "truthy v =
     (case v of
        PNone \<Rightarrow> False | PBool b \<Rightarrow> b | PInt i \<Rightarrow> i \<noteq> 0 | PStr s \<Rightarrow> s \<noteq> []
      | PList vs \<Rightarrow> vs \<noteq> [] | PDict kvs \<Rightarrow> kvs \<noteq> [] | PPkg _ \<Rightarrow> True)"

definition packages_in :: "pyval \<Rightarrow> package list" where
  "packages_in v =
     (case v of
        PList vs \<Rightarrow> List.map_filter (\<lambda>x. case x of PPkg p \<Rightarrow> Some p | _ \<Rightarrow> None) vs
      | _ \<Rightarrow> [])"

text \<open>
  \<open>xs.remove(x)\<close>: the first element equal to \<open>x\<close> goes, \<open>ValueError\<close> without
  one. Modelled from the spec: \<open>MagicMirrorPackage.__eq__\<close> is in \<open>mmpm/models.py\<close>,
  which is not under \<open>src/\<close>; two packages are equal when all their fields are.
\<close>

definition list_remove :: "'a \<Rightarrow> 'a list \<Rightarrow> exn + 'a list" where
  "list_remove x xs = (if x \<in> set xs then Inr (remove1 x xs) else Inl ValueError)"

text \<open>Without a selection: one prompt for each pending package.\<close>

fun confirm_each :: "bool \<Rightarrow> package list \<Rightarrow> io \<Rightarrow> (exn + package list) \<times> io" where
  "confirm_each assume_yes [] s = (Inr [], s)"
| "confirm_each assume_yes (package # rest) s =
     (case prompt_user assume_yes s of
        (Inl e, s1) \<Rightarrow> (Inl e, s1)
      | (Inr yes, s1) \<Rightarrow>
          (case confirm_each assume_yes rest s1 of
             (Inl e, s2) \<Rightarrow> (Inl e, s2)
           | (Inr confirmed, s2) \<Rightarrow> (Inr (if yes then package # confirmed else confirmed), s2)))"

text \<open>
  With a selection: every pending package whose title is selected is appended to
  \<open>valid_pkgs\<close> and its title is removed from the selection.
\<close>

fun match_selection ::
  "package list \<Rightarrow> package list \<Rightarrow> string list \<Rightarrow> package list \<times> string list" where
  "match_selection [] valid_pkgs selection = (valid_pkgs, selection)"
| "match_selection (pkg # rest) valid_pkgs selection =
     (if title pkg \<in> set selection
      then match_selection rest (valid_pkgs @ [pkg]) (remove1 (title pkg) selection)
      else match_selection rest valid_pkgs selection)"

text \<open>The prompt is reached only for a package whose title is still in the selection.\<close>

fun confirm_selected ::
  "bool \<Rightarrow> package list \<Rightarrow> string list \<Rightarrow> io \<Rightarrow> (exn + package list) \<times> io" where
  "confirm_selected assume_yes [] selection s = (Inr [], s)"
| "confirm_selected assume_yes (package # rest) selection s =
     (if title package \<in> set selection then
        (case prompt_user assume_yes s of
           (Inl e, s1) \<Rightarrow> (Inl e, s1)
         | (Inr yes, s1) \<Rightarrow>
             (case confirm_selected assume_yes rest selection s1 of
                (Inl e, s2) \<Rightarrow> (Inl e, s2)
              | (Inr confirmed, s2) \<Rightarrow>
                  (Inr (if yes then package # confirmed else confirmed), s2)))
      else confirm_selected assume_yes rest selection s)"

text \<open>
  The branch \<open>if selection:\<close> of \<open>upgrade_available\<close>; it returns the confirmed
  packages with \<open>mmpm_selected\<close> and \<open>magicmirror_selected\<close>.
\<close>

definition confirm_selection ::
  "bool \<Rightarrow> pyval \<Rightarrow> pyval \<Rightarrow> package list \<Rightarrow> string list \<Rightarrow> io
     \<Rightarrow> (exn + (package list \<times> bool \<times> bool)) \<times> io" where
  "confirm_selection assume_yes upgrades entry pending selection s =
     (case match_selection pending (filter (\<lambda>pkg. title pkg \<in> set selection) pending) selection of
        (valid_pkgs, selection1) \<Rightarrow>
          (case (if MMPM \<in> set selection1 then getitem upgrades MMPM else Inr (PBool False)) of
             Inl e \<Rightarrow> (Inl e, s)
           | Inr mmpm_flag \<Rightarrow>
               (let mmpm_selected = (MMPM \<in> set selection1 \<and> truthy mmpm_flag);
                    selection2 = (if mmpm_selected then remove1 MMPM selection1 else selection1)
                in case (if MAGICMIRROR \<in> set selection2 then getitem entry MAGICMIRROR
                         else Inr (PBool False)) of
                     Inl e \<Rightarrow> (Inl e, s)
                   | Inr mm_flag \<Rightarrow>
                       (let magicmirror_selected =
                              (MAGICMIRROR \<in> set selection2 \<and> truthy mm_flag);
                            selection3 = (if magicmirror_selected
                                          then remove1 MAGICMIRROR selection2 else selection2);
                            s1 = (if selection3 \<noteq> []
                                  then emit (ErrorMsg ''Unable to match selection'') s else s)
                        in case confirm_selected assume_yes valid_pkgs selection3 s1 of
                             (Inl e, s2) \<Rightarrow> (Inl e, s2)
                           | (Inr confirmed, s2) \<Rightarrow>
                               (Inr (confirmed, mmpm_selected, magicmirror_selected), s2)))))"

text \<open>
  Everything of \<open>upgrade_available\<close> that asks the user: the confirmed packages and
  whether MMPM and MagicMirror are to be upgraded.
\<close>

definition confirm_upgrades ::
  "bool \<Rightarrow> pyval \<Rightarrow> pyval \<Rightarrow> package list \<Rightarrow> string list \<Rightarrow> io
     \<Rightarrow> (exn + (package list \<times> bool \<times> bool)) \<times> io" where
  "confirm_upgrades assume_yes upgrades entry pending selection s =
     (let user_selections = (selection \<noteq> [])
      in case (if pending \<noteq> [] then
                 (if selection \<noteq> []
                  then confirm_selection assume_yes upgrades entry pending selection s
                  else (case confirm_each assume_yes pending s of
                          (Inl e, s1) \<Rightarrow> (Inl e, s1)
                        | (Inr confirmed, s1) \<Rightarrow> (Inr (confirmed, False, False), s1)))
               else (Inr ([], False, False), s)) of
           (Inl e, s1) \<Rightarrow> (Inl e, s1)
         | (Inr (confirmed, mmpm_selected, magicmirror_selected), s1) \<Rightarrow>
             (case getitem entry MAGICMIRROR of
                Inl e \<Rightarrow> (Inl e, s1)
              | Inr mm_flag \<Rightarrow>
                  (case (if truthy mm_flag \<and> magicmirror_selected \<or> \<not> user_selections
                         then prompt_user assume_yes s1 else (Inr False, s1)) of
                     (Inl e, s2) \<Rightarrow> (Inl e, s2)
                   | (Inr confirmed_magicmirror, s2) \<Rightarrow>
                       (case getitem upgrades MMPM of
                          Inl e \<Rightarrow> (Inl e, s2)
                        | Inr mmpm_flag \<Rightarrow>
                            (case (if truthy mmpm_flag \<and> mmpm_selected \<or> \<not> user_selections
                                   then prompt_user assume_yes s2 else (Inr False, s2)) of
                               (Inl e, s3) \<Rightarrow> (Inl e, s3)
                             | (Inr confirmed_mmpm, s3) \<Rightarrow>
                                 (Inr (confirmed, confirmed_mmpm, confirmed_magicmirror), s3))))))"

text \<open>
  The loop over the confirmed packages: a package that upgrades without error is
  removed from the pending list of the ledger entry; after an error the loop continues
  with the next package.
\<close>

fun upgrade_confirmed ::
  "upgrade_env \<Rightarrow> package list \<Rightarrow> package list \<Rightarrow> io \<Rightarrow> (exn + package list) \<times> io" where
  "upgrade_confirmed env [] pending s = (Inr pending, s)"
| "upgrade_confirmed env (pkg # rest) pending s =
     (case upgrade_package env pkg s of
        (Inl e, s1) \<Rightarrow> (Inl e, s1)
      | (Inr error, s1) \<Rightarrow>
          if error \<noteq> [] then upgrade_confirmed env rest pending (emit (ErrorMsg error) s1)
          else (case list_remove pkg pending of
                  Inl e \<Rightarrow> (Inl e, s1)
                | Inr pending' \<Rightarrow> upgrade_confirmed env rest pending' s1))"

text \<open>An application upgrade: the flag is cleared only when there is no error text.\<close>

definition upgrade_application :: "bool \<Rightarrow> exn + string \<Rightarrow> io \<Rightarrow> (exn + bool) \<times> io" where
  "upgrade_application confirmed outcome s =
     (if confirmed then
        (case outcome of
           Inl e \<Rightarrow> (Inl e, s)
         | Inr error \<Rightarrow> if error \<noteq> [] then (Inr False, emit (ErrorMsg error) s) else (Inr True, s))
      else (Inr False, s))"

text \<open>
  What is written at the end: the remaining pending packages serialised in the root's
  entry, and the flags of the applications that were upgraded cleared.
\<close>

definition updated_ledger ::
  "string \<Rightarrow> pyval \<Rightarrow> pyval \<Rightarrow> package list \<Rightarrow> bool \<Rightarrow> bool \<Rightarrow> exn + pyval" where
  "updated_ledger root upgrades entry pending mmpm_done magicmirror_done =
     (case (if mmpm_done then setitem upgrades MMPM (PBool False) else Inr upgrades) of
        Inl e \<Rightarrow> Inl e
      | Inr upgrades1 \<Rightarrow>
          (case (if magicmirror_done then setitem entry MAGICMIRROR (PBool False) else Inr entry) of
             Inl e \<Rightarrow> Inl e
           | Inr entry1 \<Rightarrow>
               (case setitem entry1 PACKAGES (PList (map serialize_full pending)) of
                  Inl e \<Rightarrow> Inl e
                | Inr entry2 \<Rightarrow> setitem upgrades1 root entry2)))"

text \<open>
  \<open>core.py\<close>, \<open>upgrade_available\<close>, on the console \<open>s\<close> and the ledger file \<open>f\<close>.
  An exception leaves the ledger file as \<open>get_available_upgrades\<close> left it.
\<close>

definition upgrade_available ::
  "upgrade_env \<Rightarrow> string \<Rightarrow> bool \<Rightarrow> string list \<Rightarrow> io \<Rightarrow> pyfile
     \<Rightarrow> (exn + bool) \<times> io \<times> pyfile" where
  "upgrade_available env root assume_yes selection s f =
     (case get_available_upgrades root f of
        (Inl e, f1) \<Rightarrow> (Inl e, s, f1)
      | (Inr upgrades, f1) \<Rightarrow>
          (case getitem upgrades root of
             Inl e \<Rightarrow> (Inl e, s, f1)
           | Inr entry \<Rightarrow>
               (case (case entry of
                        PDict items \<Rightarrow>
                          if list_ex (\<lambda>(key, v). truthy v) items then Inr (PBool True)
                          else getitem upgrades MMPM
                      | _ \<Rightarrow> Inl TypeError) of
                  Inl e \<Rightarrow> (Inl e, s, f1)
                | Inr _ \<Rightarrow>
                    (case getitem entry PACKAGES of
                       Inl e \<Rightarrow> (Inl e, s, f1)
                     | Inr pending_list \<Rightarrow>
                         (case confirm_upgrades assume_yes upgrades entry
                                 (packages_in pending_list) selection s of
                            (Inl e, s1) \<Rightarrow> (Inl e, s1, f1)
                          | (Inr (confirmed, confirmed_mmpm, confirmed_magicmirror), s1) \<Rightarrow>
                              (case upgrade_confirmed env confirmed (packages_in pending_list) s1 of
                                 (Inl e, s2) \<Rightarrow> (Inl e, s2, f1)
                               | (Inr pending, s2) \<Rightarrow>
                                   (case upgrade_application confirmed_mmpm (mmpm_upgrade env) s2 of
                                      (Inl e, s3) \<Rightarrow> (Inl e, s3, f1)
                                    | (Inr mmpm_done, s3) \<Rightarrow>
                                        (case upgrade_application confirmed_magicmirror
                                                (magicmirror_upgrade env) s3 of
                                           (Inl e, s4) \<Rightarrow> (Inl e, s4, f1)
                                         | (Inr magicmirror_done, s4) \<Rightarrow>
                                             (case updated_ledger root upgrades entry pending
                                                     mmpm_done magicmirror_done of
                                                Inl e \<Rightarrow> (Inl e, s4, f1)
                                              | Inr upgrades' \<Rightarrow>
                                                  (Inr True, s4, Some (Json upgrades')))))))))))"

text \<open>The pending packages a ledger file holds for a root, as persisted.\<close>

definition persisted_pending :: "pyfile \<Rightarrow> string \<Rightarrow> exn + pyval" where
  "persisted_pending f root =
     (case json_load f of
        Inl e \<Rightarrow> Inl e
      | Inr upgrades \<Rightarrow>
          (case getitem upgrades root of Inl e \<Rightarrow> Inl e | Inr entry \<Rightarrow> getitem entry PACKAGES))"

section \<open>display_categories and display_packages\<close>








section \<open>Example data\<close>

text \<open>
  The end-to-end scenario of the specification: a catalog with the category
  \<open>Clocks\<close>, and a modules directory holding one clone of \<open>https://x/foo\<close>.
\<close>

definition pkg_foo :: package where
  "pkg_foo = \<lparr>title = ''Foo'', author = ''a'', description = ''a clock'',
     repository = ''https://x/foo'', directory = []\<rparr>"

definition pkg_bar :: package where
  "pkg_bar = \<lparr>title = ''Bar'', author = ''b'', description = ''a calendar'',
     repository = ''https://x/bar'', directory = []\<rparr>"

definition example_catalog :: catalog where
  "example_catalog = [(''Clocks'', [pkg_foo, pkg_bar]), (''Weather'', [])]"

definition foo_dir :: module_dir where
  "foo_dir = \<lparr>entry_name = ''foo'', entry_is_dir = True, dot_git = True,
     getcwd = ''/mm/modules/foo'',
     git_remote = (0, ''https://x/foo'' @ [CHR 0x0A], []),
     basename_cmd = (0, ''foo'' @ [CHR 0x0A], [])\<rparr>"

text \<open>
  Two collaborators for the examples: with \<open>busy_env\<close> the clone into the existing
  directory \<open>/mm/modules/foo\<close> fails as \<open>git clone\<close> does there and every other
  command succeeds; with \<open>interrupted_env\<close> the user interrupts the clone of
  \<open>https://x/bar\<close>.
\<close>

definition pkg_foo_lower :: package where
  "pkg_foo_lower = \<lparr>title = ''foo'', author = ''a'', description = ''a clock'',
     repository = ''https://x/foo'', directory = []\<rparr>"

definition busy_env :: install_env where
  "busy_env =
     \<lparr>clone = (\<lambda>title repo target.
         if target = ''/mm/modules/foo''
         then Inr (128, [], ''fatal: destination path already exists'')
         else Inr (0, [], [])),
      install_dependencies = (\<lambda>directory. Inr [])\<rparr>"

definition interrupted_env :: install_env where
  "interrupted_env =
     \<lparr>clone = (\<lambda>title repo target.
         if repo = ''https://x/bar'' then Inl KeyboardInterrupt else Inr (0, [], [])),
      install_dependencies = (\<lambda>directory. Inr [])\<rparr>"

definition console :: "user_input list \<Rightarrow> io" where
  "console inputs = \<lparr>stdin = inputs, trace = []\<rparr>"

text \<open>
  A store with a snapshot one refresh old and no backup yet, without and with an
  external-packages file.
\<close>

definition old_snapshot :: fcontent where
  "old_snapshot = dump_catalog [(''Old'', [pkg_bar])]"

definition snapshot_store :: store where
  "snapshot_store = \<lparr>db_file = Some old_snapshot, bak_file = None, ext_file = None, reported = []\<rparr>"

definition external_store :: store where
  "external_store =
     snapshot_store\<lparr>ext_file :=
       Some (Json (PDict [(EXTERNAL_PACKAGES, PList [serialize pkg_foo_lower])]))\<rparr>"

text \<open>
  A ledger that knows the root \<open>/other\<close> with one pending package, and a modules
  directory whose only entry is not a git clone.
\<close>

definition other_ledger :: "(string \<times> pyval) list" where
  "other_ledger =
     [(MMPM, PBool True),
      (''/other'', PDict [(PACKAGES, PList [serialize pkg_foo]), (MAGICMIRROR, PBool True)])]"

definition plain_dir :: module_dir where
  "plain_dir = foo_dir\<lparr>dot_git := False\<rparr>"

text \<open>
  Three pending packages for the root \<open>/mm\<close>, and collaborators with which the pull
  of the second one fails.
\<close>

definition pending_a :: package where
  "pending_a = pkg_foo\<lparr>directory := ''/mm/modules/a''\<rparr>"

definition pending_b :: package where
  "pending_b = pkg_bar\<lparr>directory := ''/mm/modules/b''\<rparr>"

definition pending_c :: package where
  "pending_c = \<lparr>title = ''Baz'', author = ''c'', description = ''a ticker'',
     repository = ''https://x/baz'', directory = ''/mm/modules/c''\<rparr>"

definition pending_ledger :: pyfile where
  "pending_ledger =
     Some (Json (PDict
       [(MMPM, PBool False),
        (''/mm'', PDict [(PACKAGES, PList (map serialize_full [pending_a, pending_b, pending_c])),
                        (MAGICMIRROR, PBool False)])]))"

definition second_fails :: upgrade_env where
  "second_fails =
     \<lparr>pull = (\<lambda>directory. if directory = ''/mm/modules/b''
                 then Inr (1, [], ''fatal: unable to access'') else Inr (0, [], [])),
      dependencies = (\<lambda>directory. Inr []),
      mmpm_upgrade = Inr [], magicmirror_upgrade = Inr []\<rparr>"

text \<open>
  Collaborators with which the pull of the second package fails without writing
  anything to the standard error stream.
\<close>

definition silent_failure :: upgrade_env where
  "silent_failure =
     \<lparr>pull = (\<lambda>directory. if directory = ''/mm/modules/b''
                 then Inr (1, [], []) else Inr (0, [], [])),
      dependencies = (\<lambda>directory. Inr []),
      mmpm_upgrade = Inr [], magicmirror_upgrade = Inr []\<rparr>"

section \<open>Theorems\<close>

text \<open>
  C10. When the query is one of the catalog's category names, \<open>search_packages\<close>
  returns exactly that one category with its whole package list, whatever the flags
  \<open>case_sensitive\<close> and \<open>by_title_only\<close> are: no package is filtered out.
\<close>

theorem search_packages_category_query:
  "map_of packages query = Some pkgs \<Longrightarrow>
     search_packages packages query case_sensitive by_title_only = [(query, pkgs)]"
  by (simp add: search_packages_def)

theorem search_packages_category_query_witness:
  "map_of [(''Clocks'', [\<lparr>title = ''Foo'', author = ''a'', description = ''d'',
        repository = ''https://x/foo'', directory = ''''\<rparr>]), (''Weather'', [])] ''Clocks''
     = Some [\<lparr>title = ''Foo'', author = ''a'', description = ''d'',
        repository = ''https://x/foo'', directory = ''''\<rparr>]
   \<and> search_packages
        [(''Clocks'', [\<lparr>title = ''Foo'', author = ''a'', description = ''d'',
           repository = ''https://x/foo'', directory = ''''\<rparr>]), (''Weather'', [])]
        ''Clocks'' False True
     = [(''Clocks'', [\<lparr>title = ''Foo'', author = ''a'', description = ''d'',
           repository = ''https://x/foo'', directory = ''''\<rparr>])]"
  using search_packages_category_query
    [of "[(''Clocks'', [\<lparr>title = ''Foo'', author = ''a'', description = ''d'',
        repository = ''https://x/foo'', directory = ''''\<rparr>]), (''Weather'', [])]"
      "''Clocks''"
      "[\<lparr>title = ''Foo'', author = ''a'', description = ''d'',
        repository = ''https://x/foo'', directory = ''''\<rparr>]" False True]
  by simp

subsection \<open>Installed packages\<close>

lemma match_found_cases:
  "match_found p found = (p', n) \<Longrightarrow>
     (n = 0 \<and> p' = p \<and> (\<forall>f \<in> set found. repository f \<noteq> repository p))
   \<or> (0 < n \<and> (\<exists>f \<in> set found. repository p = repository f \<and> p' = p\<lparr>directory := directory f\<rparr>))"
proof (induction found arbitrary: p p' n)
  case Nil
  then show ?case by simp
next
  case (Cons f fs)
  show ?case
  proof (cases "repository p = repository f")
    case True
    then obtain q m where qm: "match_found (p\<lparr>directory := directory f\<rparr>) fs = (q, m)"
      and res: "p' = q" "n = Suc m"
      using Cons.prems by (auto split: prod.splits)
    from Cons.IH[OF qm] True res show ?thesis
      by auto
  next
    case False
    then have "match_found p fs = (p', n)" using Cons.prems by simp
    from Cons.IH[OF this] False show ?thesis by auto
  qed
qed

lemma package_found_Some:
  "package_found d = Some f \<Longrightarrow>
     entry_is_dir d \<and> dot_git d \<and> fst (git_remote d) = 0 \<and> fst (basename_cmd d) = 0
     \<and> repository f = strip (fst (snd (git_remote d))) \<and> directory f = getcwd d"
  by (auto simp: package_found_def split: if_splits prod.splits)

lemma packages_found_mem:
  "f \<in> set (packages_found ds) \<Longrightarrow> \<exists>d \<in> set ds. package_found d = Some f"
  by (auto simp: packages_found_def List.map_filter_def)

lemma installed_in_category_mem:
  assumes "q \<in> set (installed_in_category found pkgs)"
  shows "\<exists>p \<in> set pkgs. \<exists>f \<in> set found.
           repository p = repository f \<and> q = p\<lparr>directory := directory f\<rparr>"
proof -
  from assms obtain p where p: "p \<in> set pkgs"
    and q0: "q \<in> set (case match_found p found of (p', n) \<Rightarrow> replicate n p')"
    by (auto simp: installed_in_category_def)
  obtain p' n where m: "match_found p found = (p', n)"
    by (cases "match_found p found")
  with q0 have q: "q \<in> set (replicate n p')" by simp
  from q have "0 < n" "q = p'" by (auto simp: set_replicate_conv_if split: if_splits)
  with match_found_cases[OF m] p show ?thesis by auto
qed

lemma installed_mem:
  assumes "(category, installed) \<in> set (get_installed_packages modules packages)"
    and "q \<in> set installed"
  shows "\<exists>pkgs p d. (category, pkgs) \<in> set packages \<and> p \<in> set pkgs
          \<and> d \<in> set (existing_entries modules) \<and> dot_git d \<and> fst (git_remote d) = 0
          \<and> repository p = strip (fst (snd (git_remote d)))
          \<and> q = p\<lparr>directory := getcwd d\<rparr>"
proof -
  let ?dirs = "existing_entries modules"
  from assms(1) obtain pkgs where c: "(category, pkgs) \<in> set packages"
    and i: "installed = installed_in_category (packages_found ?dirs) pkgs"
    by (auto simp: get_installed_packages_def Let_def split: if_splits)
  from installed_in_category_mem[OF assms(2)[unfolded i]]
  obtain p f where p: "p \<in> set pkgs" and f: "f \<in> set (packages_found ?dirs)"
    and r: "repository p = repository f" and q: "q = p\<lparr>directory := directory f\<rparr>"
    by blast
  from packages_found_mem[OF f] obtain d where d: "d \<in> set ?dirs" "package_found d = Some f"
    by blast
  from package_found_Some[OF d(2)] c p d(1) r q show ?thesis by auto
qed

text \<open>
  C7. For every catalog and every modules directory, \<open>get_installed_packages\<close>
  returns only packages of the catalog, in their category, whose repository string
  equals the trimmed remote origin URL of some git clone found in the modules
  directory, with the directory set to that clone's absolute directory; and a catalog
  package whose repository matches no clone does not occur in any category of the
  result.
\<close>

theorem get_installed_packages_subset:
  "(\<forall>(category, installed) \<in> set (get_installed_packages modules packages).
      \<forall>q \<in> set installed.
        \<exists>pkgs p d. (category, pkgs) \<in> set packages \<and> p \<in> set pkgs
          \<and> d \<in> set (existing_entries modules) \<and> dot_git d \<and> fst (git_remote d) = 0
          \<and> repository p = strip (fst (snd (git_remote d)))
          \<and> q = p\<lparr>directory := getcwd d\<rparr>)
   \<and> (\<forall>(category, pkgs) \<in> set packages. \<forall>p \<in> set pkgs.
        (\<forall>d \<in> set (existing_entries modules).
            dot_git d \<and> fst (git_remote d) = 0
              \<longrightarrow> repository p \<noteq> strip (fst (snd (git_remote d))))
        \<longrightarrow> (\<forall>(category', installed) \<in> set (get_installed_packages modules packages).
              \<forall>q \<in> set installed. repository q \<noteq> repository p))"
proof (intro conjI)
  show "\<forall>(category, installed) \<in> set (get_installed_packages modules packages).
      \<forall>q \<in> set installed.
        \<exists>pkgs p d. (category, pkgs) \<in> set packages \<and> p \<in> set pkgs
          \<and> d \<in> set (existing_entries modules) \<and> dot_git d \<and> fst (git_remote d) = 0
          \<and> repository p = strip (fst (snd (git_remote d)))
          \<and> q = p\<lparr>directory := getcwd d\<rparr>"
    using installed_mem by blast
next
  show "\<forall>(category, pkgs) \<in> set packages. \<forall>p \<in> set pkgs.
        (\<forall>d \<in> set (existing_entries modules).
            dot_git d \<and> fst (git_remote d) = 0
              \<longrightarrow> repository p \<noteq> strip (fst (snd (git_remote d))))
        \<longrightarrow> (\<forall>(category', installed) \<in> set (get_installed_packages modules packages).
              \<forall>q \<in> set installed. repository q \<noteq> repository p)"
  proof (clarify)
    fix category pkgs p category' installed q
    assume h: "\<forall>d \<in> set (existing_entries modules).
            dot_git d \<and> fst (git_remote d) = 0
              \<longrightarrow> repository p \<noteq> strip (fst (snd (git_remote d)))"
      and i: "(category', installed) \<in> set (get_installed_packages modules packages)"
      and q: "q \<in> set installed" and e: "repository q = repository p"
    from installed_mem[OF i q] obtain p0 d where
      "d \<in> set (existing_entries modules)" "dot_git d" "fst (git_remote d) = 0"
      "repository p0 = strip (fst (snd (git_remote d)))" "q = p0\<lparr>directory := getcwd d\<rparr>"
      by blast
    with h e show False by auto
  qed
qed

theorem get_installed_packages_subset_witness:
  "get_installed_packages (Some [foo_dir]) example_catalog
     = [(''Clocks'', [pkg_foo\<lparr>directory := ''/mm/modules/foo''\<rparr>]), (''Weather'', [])]
   \<and> foo_dir \<in> set (existing_entries (Some [foo_dir]))
   \<and> repository pkg_foo = strip (fst (snd (git_remote foo_dir)))
   \<and> repository pkg_bar \<noteq> strip (fst (snd (git_remote foo_dir)))"
  using get_installed_packages_subset [of "Some [foo_dir]" example_catalog]
  by (simp add: get_installed_packages_def existing_entries_def foo_dir_def packages_found_def
      List.map_filter_def package_found_def installed_in_category_def strip_def is_space_def
      MagicMirrorPackage_def example_catalog_def pkg_foo_def pkg_bar_def)

subsection \<open>Installation\<close>

text \<open>The definitions unfolded when a run is evaluated on the example data.\<close>

lemmas ev = install_packages_def install_package_def prompt_user_def emit_def
  get_existing_package_directories_def existing_entries_def foo_dir_def path_join_def
  eq_None_def MagicMirrorPackage_def NOT_AVAILABLE_def pkg_foo_def pkg_bar_def pkg_foo_lower_def
  busy_env_def interrupted_env_def console_def keyboard_interrupt_log_def Let_def

lemma install_candidates_append:
  "install_candidates env modules_dir assume_yes (before @ rest) existing s =
     (case install_candidates env modules_dir assume_yes before existing s of
        (Inl e, s1) \<Rightarrow> (Inl e, s1)
      | (Inr existing1, s1) \<Rightarrow> install_candidates env modules_dir assume_yes rest existing1 s1)"
proof (induction before arbitrary: existing s)
  case Nil
  show ?case by simp
next
  case (Cons c cs)
  show ?case
  proof (cases "eq_None c")
    case True
    then show ?thesis using Cons.IH by simp
  next
    case False
    then show ?thesis
      using Cons.IH
      by (simp add: Let_def split: prod.splits sum.splits exn.splits)
  qed
qed

text \<open>
  C8, as amended. An interruption while \<open>install_package\<close> runs for a candidate
  (the candidates before it having been processed) removes that candidate's directory
  and ends the process with exit status 127. An interruption at a yes/no prompt does
  not end the process: \<open>prompt_user\<close> answers \<open>False\<close> and the program goes on.
\<close>

theorem interrupt_handling:
  "(stdin s = CtrlC # inputs \<longrightarrow> prompt_user False s = (Inr False, s\<lparr>stdin := inputs\<rparr>))
   \<and> (modules \<noteq> None \<and> installation_candidates \<noteq> []
       \<and> confirm_candidates assume_yes installation_candidates s
            = (Inr (before @ candidate # rest), s0)
       \<and> install_candidates env modules_dir assume_yes before
            (get_existing_package_directories modules) s0 = (Inr existing1, s1)
       \<and> \<not> eq_None candidate
       \<and> install_package env modules_dir assume_yes
            (candidate\<lparr>directory := path_join modules_dir (title candidate)\<rparr>)
            (report_conflicts (candidate\<lparr>directory := path_join modules_dir (title candidate)\<rparr>)
               existing1 s1)
            = (Inl KeyboardInterrupt, s2)
      \<longrightarrow> install_packages env modules_dir modules installation_candidates assume_yes s
            = (Inl (SystemExit 127),
               emit (RemoveDirCmd (path_join modules_dir (title candidate))) s2))"
proof (intro conjI impI)
  assume "stdin s = CtrlC # inputs"
  then show "prompt_user False s = (Inr False, s\<lparr>stdin := inputs\<rparr>)"
    by (simp add: prompt_user_def)
next
  assume h: "modules \<noteq> None \<and> installation_candidates \<noteq> []
       \<and> confirm_candidates assume_yes installation_candidates s
            = (Inr (before @ candidate # rest), s0)
       \<and> install_candidates env modules_dir assume_yes before
            (get_existing_package_directories modules) s0 = (Inr existing1, s1)
       \<and> \<not> eq_None candidate
       \<and> install_package env modules_dir assume_yes
            (candidate\<lparr>directory := path_join modules_dir (title candidate)\<rparr>)
            (report_conflicts (candidate\<lparr>directory := path_join modules_dir (title candidate)\<rparr>)
               existing1 s1)
            = (Inl KeyboardInterrupt, s2)"
  then have "install_candidates env modules_dir assume_yes (before @ candidate # rest)
               (get_existing_package_directories modules) s0
             = (Inl (SystemExit 127),
                emit (RemoveDirCmd (path_join modules_dir (title candidate))) s2)"
    by (simp add: install_candidates_append Let_def keyboard_interrupt_log_def)
  with h show "install_packages env modules_dir modules installation_candidates assume_yes s
            = (Inl (SystemExit 127),
               emit (RemoveDirCmd (path_join modules_dir (title candidate))) s2)"
    by (simp add: install_packages_def Let_def)
qed

theorem interrupt_handling_witness:
  "prompt_user False (console [CtrlC, Line ''y'']) = (Inr False, console [Line ''y''])
   \<and> install_packages interrupted_env ''/mm/modules'' (Some [foo_dir]) [pkg_foo, pkg_bar] True
        (console [])
      = (Inl (SystemExit 127),
         \<lparr>stdin = [],
          trace = [CloneCmd ''Foo'' ''https://x/foo'' ''/mm/modules/Foo'',
                   DependenciesCmd ''/mm/modules/Foo'',
                   CloneCmd ''Bar'' ''https://x/bar'' ''/mm/modules/Bar'',
                   RemoveDirCmd ''/mm/modules/Bar'']\<rparr>)"
  using interrupt_handling [of "console [CtrlC, Line ''y'']" "[Line ''y'']"]
  by (simp add: ev)

text \<open>
  C8 as stated fails for the prompts: with Ctrl-C as the only input, \<open>prompt_user\<close>
  returns \<open>False\<close>, and \<open>install_packages\<close> interrupted at its confirmation prompt
  returns \<open>False\<close> to its caller; neither exits.
\<close>

theorem prompt_interrupt_counterexample:
  "prompt_user False (console [CtrlC]) = (Inr False, console [])
   \<and> install_packages busy_env ''/mm/modules'' (Some [foo_dir]) [pkg_bar] False (console [CtrlC])
      = (Inr False, console [])"
  by (simp add: ev)

text \<open>
  C2, at a failing input. The modules directory \<open>/mm/modules\<close> holds the directory
  \<open>foo\<close>, and the candidates are \<open>foo\<close> and \<open>Bar\<close>. No conflict is reported for
  \<open>foo\<close> (its full path is compared with the directory names) and its repository is
  cloned all the same; the second candidate is installed. Even where an entry of
  \<open>existing_module_dirs\<close> equals the target path, the conflict is reported and the
  clone still runs, because the \<open>continue\<close> belongs to the inner loop.
\<close>

theorem install_packages_conflict_not_skipped:
  "install_packages busy_env ''/mm/modules'' (Some [foo_dir]) [pkg_foo_lower, pkg_bar] True
      (console [])
     = (Inr True,
        \<lparr>stdin = [],
         trace = [CloneCmd ''foo'' ''https://x/foo'' ''/mm/modules/foo'',
                  ErrorMsg ''fatal: destination path already exists'',
                  CloneCmd ''Bar'' ''https://x/bar'' ''/mm/modules/Bar'',
                  DependenciesCmd ''/mm/modules/Bar'']\<rparr>)
   \<and> get_existing_package_directories (Some [foo_dir]) = [''foo'']
   \<and> install_candidates busy_env ''/mm/modules'' True [pkg_foo_lower] [''/mm/modules/foo'']
        (console [])
     = (Inr [''/mm/modules/foo''],
        \<lparr>stdin = [],
         trace = [ConflictMsg ''foo'' ''/mm/modules/foo'',
                  CloneCmd ''foo'' ''https://x/foo'' ''/mm/modules/foo'',
                  ErrorMsg ''fatal: destination path already exists'']\<rparr>)"
  by (simp add: ev)

subsection \<open>Catalog store\<close>

lemmas ev2 = load_packages_def retrieve_packages_def report_def exists_nonempty_def
  snapshot_store_def external_store_def old_snapshot_def fatal_msg_def Let_def
  dump_catalog_def read_catalog_def json_load_def load_external_packages_def
  list_of_dict_to_list_of_magicmirror_packages_def package_of_pyval_def package_of_kwargs_def
  str_field_def serialize_def serialize_full_def dict_update_def EXTERNAL_PACKAGES_def
  pkg_foo_def pkg_bar_def pkg_foo_lower_def example_catalog_def NOT_AVAILABLE_def

lemma load_packages_bak:
  "bak_file (snd (load_packages force_refresh r w))
     = (if exists_nonempty (db_file w) then db_file w else bak_file w)"
  by (simp add: load_packages_def Let_def report_def retrieve_packages_def
      split: sum.splits prod.splits remote.splits)

lemma load_packages_db_refreshed:
  "packages \<noteq> [] \<Longrightarrow>
     db_file (snd (load_packages True (Scraped packages) w)) = Some (dump_catalog packages)"
  by (simp add: load_packages_def Let_def report_def retrieve_packages_def
      split: sum.splits prod.splits)

lemma load_packages_db_kept:
  "db_file (snd (load_packages force_refresh (Scraped []) w)) = db_file w"
  by (simp add: load_packages_def Let_def report_def retrieve_packages_def
      split: sum.splits prod.splits)

text \<open>
  C1, as amended. Whenever a non-empty snapshot exists, \<open>load_packages\<close> copies it
  to the \<open>.bak\<close> file, at every load and whatever the remote answers, so after the
  load the \<open>.bak\<close> content is the snapshot content from before the load; without a
  snapshot the \<open>.bak\<close> file is left alone. A forced refresh that fetches a non-empty
  result overwrites the snapshot with it, and a fetch that returns an empty result
  never overwrites the snapshot.
\<close>

theorem load_packages_backup:
  "(exists_nonempty (db_file w) \<longrightarrow>
      bak_file (snd (load_packages force_refresh r w)) = db_file w)
   \<and> (\<not> exists_nonempty (db_file w) \<longrightarrow>
      bak_file (snd (load_packages force_refresh r w)) = bak_file w)
   \<and> (packages \<noteq> [] \<longrightarrow>
      db_file (snd (load_packages True (Scraped packages) w)) = Some (dump_catalog packages))
   \<and> db_file (snd (load_packages force_refresh (Scraped []) w)) = db_file w"
  using load_packages_db_refreshed [of packages w]
  by (simp add: load_packages_bak load_packages_db_kept)

theorem load_packages_backup_witness:
  "exists_nonempty (db_file snapshot_store)
   \<and> bak_file (snd (load_packages True (Scraped example_catalog) snapshot_store))
       = Some old_snapshot
   \<and> example_catalog \<noteq> []
   \<and> db_file (snd (load_packages True (Scraped example_catalog) snapshot_store))
       = Some (dump_catalog example_catalog)
   \<and> \<not> exists_nonempty (db_file (snapshot_store\<lparr>db_file := None\<rparr>))
   \<and> bak_file (snd (load_packages True (Scraped example_catalog)
         (snapshot_store\<lparr>db_file := None\<rparr>))) = None"
  using load_packages_backup [of snapshot_store True "Scraped example_catalog" example_catalog]
    load_packages_backup [of "snapshot_store\<lparr>db_file := None\<rparr>" True "Scraped example_catalog"
      example_catalog]
  by (simp add: exists_nonempty_def snapshot_store_def old_snapshot_def dump_catalog_def
      example_catalog_def)

text \<open>
  C1 as stated fails: on a forced refresh whose fetch returns an empty result, with a
  snapshot and no \<open>.bak\<close> file yet, the backup is taken all the same (the snapshot
  itself is not touched).
\<close>

theorem backup_on_empty_fetch_counterexample:
  "bak_file snapshot_store = None
   \<and> snd (load_packages True (Scraped []) snapshot_store)
       = snapshot_store\<lparr>bak_file := Some old_snapshot,
           reported := [ErrorMsg ''Failed to retrieve packages'']\<rparr>"
  by (simp add: ev2)

text \<open>
  C5, at a failing input. A snapshot exists, the refresh is forced and the remote cannot
  be reached: \<open>retrieve_packages\<close> ends the process with exit status 127, so the stale
  snapshot is never read and returned. This holds for every store.
\<close>

theorem load_packages_network_failure:
  "load_packages True URLError snapshot_store
     = (Inl (SystemExit 127), snapshot_store\<lparr>bak_file := Some old_snapshot\<rparr>)
   \<and> fst (load_packages True URLError w) = Inl (SystemExit 127)"
  by (simp add: ev2)

subsection \<open>Order of categories and packages\<close>
















subsection \<open>Upgrade ledger\<close>

lemmas ev3 = get_available_upgrades_def convert_entry_def getitem_def setitem_def json_load_def
  default_entry_def reset_document_def MMPM_def MAGICMIRROR_def PACKAGES_def other_ledger_def
  list_of_dict_to_list_of_magicmirror_packages_def package_of_pyval_def package_of_kwargs_def
  str_field_def serialize_def serialize_full_def pkg_foo_def pkg_bar_def NOT_AVAILABLE_def

lemma map_of_dict_set_same: "map_of (dict_set d k v) k = Some v"
  by (induction d) auto

lemma dict_set_twice: "dict_set (dict_set d k v) k v' = dict_set d k v'"
  by (induction d) auto

lemma getitem_dict_set: "getitem (PDict (dict_set kvs k v)) k = Inr v"
  by (simp add: getitem_def map_of_dict_set_same)

lemma getitem_reset_document: "getitem (reset_document root) root = Inr default_entry"
  unfolding reset_document_def by (rule getitem_dict_set)

lemma get_available_upgrades_garbage:
  "get_available_upgrades root (Some (Garbage text))
     = (Inr (reset_document root), Some (Json (reset_document root)))"
  by (simp add: get_available_upgrades_def json_load_def)





lemma get_available_upgrades_after_reset:
  "\<exists>doc. fst (get_available_upgrades root
            (Some (Json (PDict (dict_set kvs root default_entry))))) = Inr doc
         \<and> getitem doc root = Inr default_entry"
proof -
  have c: "convert_entry root (PDict (dict_set kvs root default_entry))
             = Inr (PDict (dict_set kvs root default_entry))"
    by (simp add: convert_entry_def getitem_dict_set)
       (simp add: default_entry_def getitem_def setitem_def dict_set_twice
          list_of_dict_to_list_of_magicmirror_packages_def)
  show ?thesis
    by (simp add: get_available_upgrades_def json_load_def c getitem_dict_set)
qed

lemma none_installed:
  "(\<forall>(category, pkgs) \<in> set installed. pkgs = [])
     \<Longrightarrow> \<not> list_ex (\<lambda>(category, pkgs). pkgs \<noteq> []) installed"
  by (auto simp: list_ex_iff)

text \<open>
  C6. When the modules directory exists and no package of the catalog is installed
  (every category of \<open>get_installed_packages\<close> is empty), \<open>check_for_package_updates\<close>
  returns the empty list, and the ledger it leaves, read by \<open>get_available_upgrades\<close>,
  has for the current root the entry with an empty \<open>packages\<close> list and the
  application flag \<open>False\<close>.
\<close>

theorem check_for_package_updates_none_installed:
  "modules \<noteq> None
   \<and> (\<forall>(category, pkgs) \<in> set (get_installed_packages modules packages). pkgs = [])
   \<longrightarrow> fst (check_for_package_updates root modules git_fetch packages f) = Inr []
       \<and> (\<exists>doc. fst (get_available_upgrades root
                   (snd (check_for_package_updates root modules git_fetch packages f))) = Inr doc
              \<and> getitem doc root
                   = Inr (PDict [(PACKAGES, PList []), (MAGICMIRROR, PBool False)]))"
proof (intro impI)
  assume h: "modules \<noteq> None
   \<and> (\<forall>(category, pkgs) \<in> set (get_installed_packages modules packages). pkgs = [])"
  then have n: "\<not> list_ex (\<lambda>(category, pkgs). pkgs \<noteq> []) (get_installed_packages modules packages)"
    using none_installed by blast
  obtain ok f1 where r: "reset_available_upgrades_for_environment root f = (ok, f1)"
    by (cases "reset_available_upgrades_for_environment root f")
  have res: "check_for_package_updates root modules git_fetch packages f
               = (Inr [], if ok then f1 else Some (Garbage []))"
    using h n r by (simp add: check_for_package_updates_def Let_def)
  have "\<exists>doc. fst (get_available_upgrades root (if ok then f1 else Some (Garbage []))) = Inr doc
              \<and> getitem doc root = Inr default_entry"
  proof (cases ok)
    case True
    then obtain kvs where "f1 = Some (Json (PDict (dict_set kvs root default_entry)))"
      using r
      by (auto simp: reset_available_upgrades_for_environment_def
          split: sum.splits pyval.splits)
    then show ?thesis using True get_available_upgrades_after_reset by simp
  next
    case False
    then show ?thesis
      by (simp add: get_available_upgrades_garbage getitem_reset_document)
  qed
  then show "fst (check_for_package_updates root modules git_fetch packages f) = Inr []
       \<and> (\<exists>doc. fst (get_available_upgrades root
                   (snd (check_for_package_updates root modules git_fetch packages f))) = Inr doc
              \<and> getitem doc root
                   = Inr (PDict [(PACKAGES, PList []), (MAGICMIRROR, PBool False)]))"
    by (simp add: res default_entry_def)
qed

theorem check_for_package_updates_none_installed_witness:
  "Some [plain_dir] \<noteq> None
   \<and> get_installed_packages (Some [plain_dir]) example_catalog = [(''Clocks'', []), (''Weather'', [])]
   \<and> check_for_package_updates ''/other'' (Some [plain_dir]) (\<lambda>d. Inr (0, [], []))
        example_catalog (Some (Json (PDict other_ledger)))
      = (Inr [],
         Some (Json (PDict [(MMPM, PBool True),
            (''/other'', PDict [(PACKAGES, PList []), (MAGICMIRROR, PBool False)])])))"
  using check_for_package_updates_none_installed
    [of "Some [plain_dir]" example_catalog "''/other''" "\<lambda>d. Inr (0, [], [])"
      "Some (Json (PDict other_ledger))"]
  by (simp add: check_for_package_updates_def reset_available_upgrades_for_environment_def
      get_installed_packages_def existing_entries_def plain_dir_def foo_dir_def
      packages_found_def List.map_filter_def package_found_def installed_in_category_def
      example_catalog_def Let_def ev3)

subsection \<open>Upgrades\<close>

lemmas ev4 = upgrade_available_def confirm_upgrades_def confirm_each.simps
  upgrade_confirmed.simps upgrade_package_def upgrade_application_def updated_ledger_def
  persisted_pending_def packages_in_def truthy_def list_remove_def prompt_user_def emit_def
  console_def pending_ledger_def pending_a_def pending_b_def pending_c_def second_fails_def
  silent_failure_def List.map_filter_def Let_def

lemma upgrade_package_outcome: "fst (upgrade_package env p s) = upgrade_outcome env p"
  by (simp add: upgrade_package_def upgrade_outcome_def split: sum.splits prod.splits)

lemma upgrade_confirmed_distinct:
  "upgrade_confirmed env confirmed pending s = (Inr pending', s') \<Longrightarrow> distinct pending \<Longrightarrow>
     pending' = filter (\<lambda>p. \<not> (p \<in> set confirmed \<and> upgrade_outcome env p = Inr [])) pending"
proof (induction confirmed arbitrary: pending s)
  case Nil
  then show ?case by simp
next
  case (Cons c cs)
  obtain r s1 where u: "upgrade_package env c s = (r, s1)" by (cases "upgrade_package env c s")
  then have o: "upgrade_outcome env c = r" using upgrade_package_outcome[of env c s] by simp
  show ?case
  proof (cases r)
    case (Inl e)
    then show ?thesis using Cons.prems u by simp
  next
    case (Inr error)
    show ?thesis
    proof (cases "error = []")
      case True
      then obtain rest where rm: "list_remove c pending = Inr rest"
        and run: "upgrade_confirmed env cs rest s1 = (Inr pending', s')"
        using Cons.prems(1) u Inr by (auto split: sum.splits)
      from rm have mem: "c \<in> set pending" and rest: "rest = remove1 c pending"
        by (auto simp: list_remove_def split: if_splits)
      have d: "distinct rest" using Cons.prems(2) rest by simp
      have rest': "rest = filter (\<lambda>p. p \<noteq> c) pending"
        using Cons.prems(2) rest by (simp add: distinct_remove1_removeAll removeAll_filter_not_eq)
           (metis (mono_tags, lifting) filter_cong)
      from Cons.IH[OF run d] have
        "pending' = filter (\<lambda>p. \<not> (p \<in> set cs \<and> upgrade_outcome env p = Inr [])) rest" .
      then show ?thesis
        using rest' o Inr True by (auto intro: filter_cong)
    next
      case False
      then have run: "upgrade_confirmed env cs pending (emit (ErrorMsg error) s1) = (Inr pending', s')"
        using Cons.prems(1) u Inr by simp
      from Cons.IH[OF run Cons.prems(2)] show ?thesis
        using o Inr False by (auto intro: filter_cong)
    qed
  qed
qed

lemma upgrade_confirmed_all:
  "upgrade_confirmed env xs (kept @ xs) s = (Inr pending', s') \<Longrightarrow>
   \<forall>p \<in> set kept. upgrade_outcome env p \<noteq> Inr [] \<Longrightarrow>
     pending' = kept @ filter (\<lambda>p. upgrade_outcome env p \<noteq> Inr []) xs"
proof (induction xs arbitrary: kept s)
  case Nil
  then show ?case by simp
next
  case (Cons x xs)
  obtain r s1 where u: "upgrade_package env x s = (r, s1)" by (cases "upgrade_package env x s")
  then have o: "upgrade_outcome env x = r" using upgrade_package_outcome[of env x s] by simp
  show ?case
  proof (cases r)
    case (Inl e)
    then show ?thesis using Cons.prems u by simp
  next
    case (Inr error)
    show ?thesis
    proof (cases "error = []")
      case True
      then have nk: "x \<notin> set kept" using Cons.prems(2) o Inr by auto
      then have rm: "list_remove x (kept @ x # xs) = Inr (kept @ xs)"
        by (simp add: list_remove_def remove1_append)
      then have run: "upgrade_confirmed env xs (kept @ xs) s1 = (Inr pending', s')"
        using Cons.prems(1) u Inr True by simp
      from Cons.IH[OF run Cons.prems(2)] show ?thesis using o Inr True by simp
    next
      case False
      then have run: "upgrade_confirmed env xs ((kept @ [x]) @ xs) (emit (ErrorMsg error) s1)
                        = (Inr pending', s')"
        using Cons.prems(1) u Inr by simp
      have "\<forall>p \<in> set (kept @ [x]). upgrade_outcome env p \<noteq> Inr []"
        using Cons.prems(2) o Inr False by auto
      from Cons.IH[OF run this] show ?thesis using o Inr False by simp
    qed
  qed
qed

lemma confirm_each_yes: "confirm_each True pending s = (Inr pending, s)"
  by (induction pending) (simp_all add: prompt_user_def)

lemma confirm_upgrades_yes:
  "confirm_upgrades True upgrades entry pending [] s = (Inr (confirmed, cm, cmm), s1)
     \<Longrightarrow> confirmed = pending"
  by (auto simp: confirm_upgrades_def Let_def confirm_each_yes prompt_user_def
      split: sum.splits if_splits)

lemma persisted_updated_ledger:
  "updated_ledger root upgrades entry pending mmpm_done magicmirror_done = Inr upgrades'
     \<Longrightarrow> persisted_pending (Some (Json upgrades')) root
           = Inr (PList (map serialize_full pending))"
  by (auto simp: updated_ledger_def persisted_pending_def json_load_def setitem_def
      getitem_dict_set split: sum.splits if_splits pyval.splits)

lemma upgrade_available_run:
  assumes "get_available_upgrades root f = (Inr upgrades, f1)"
    and "getitem upgrades root = Inr entry"
    and "getitem entry PACKAGES = Inr pending_list"
    and "confirm_upgrades assume_yes upgrades entry (packages_in pending_list) selection s
           = (Inr (confirmed, confirmed_mmpm, confirmed_magicmirror), s1)"
    and "upgrade_available env root assume_yes selection s f = (Inr result, s', f')"
  shows "\<exists>pending s2. upgrade_confirmed env confirmed (packages_in pending_list) s1
                        = (Inr pending, s2)
           \<and> persisted_pending f' root = Inr (PList (map serialize_full pending))"
proof -
  obtain r2 s2 where uc: "upgrade_confirmed env confirmed (packages_in pending_list) s1 = (r2, s2)"
    by (cases "upgrade_confirmed env confirmed (packages_in pending_list) s1")
  from assms uc obtain pending where p: "r2 = Inr pending"
    by (cases r2) (auto simp: upgrade_available_def split: sum.splits pyval.splits if_splits)
  from assms uc p obtain md mmd upgrades' where
    ul: "updated_ledger root upgrades entry pending md mmd = Inr upgrades'"
    and f': "f' = Some (Json upgrades')"
    by (auto simp: upgrade_available_def split: sum.splits pyval.splits if_splits prod.splits)
  from persisted_updated_ledger[OF ul] f' uc p show ?thesis by simp
qed

text \<open>
  What holds of the loop over the confirmed packages, for every run of
  \<open>upgrade_available\<close> that returns: a pending package is gone from the persisted list
  exactly when it was confirmed and \<open>upgrade_package\<close> returned the empty error text for
  it (the pending packages being distinct); when every pending package is confirmed
  (\<open>assume_yes\<close> without a selection), the persisted list holds exactly the packages for
  which \<open>upgrade_package\<close> returned an error text.
\<close>

lemma upgrade_available_persisted:
  assumes "get_available_upgrades root f = (Inr upgrades, f1)"
    and "getitem upgrades root = Inr entry"
    and "getitem entry PACKAGES = Inr pending_list"
    and "confirm_upgrades assume_yes upgrades entry (packages_in pending_list) selection s
           = (Inr (confirmed, confirmed_mmpm, confirmed_magicmirror), s1)"
    and "upgrade_available env root assume_yes selection s f = (Inr result, s', f')"
  shows "(distinct (packages_in pending_list) \<longrightarrow>
           persisted_pending f' root
             = Inr (PList (map serialize_full
                 (filter (\<lambda>p. \<not> (p \<in> set confirmed \<and> upgrade_outcome env p = Inr []))
                    (packages_in pending_list)))))
       \<and> (assume_yes \<and> selection = [] \<longrightarrow>
           persisted_pending f' root
             = Inr (PList (map serialize_full
                 (filter (\<lambda>p. upgrade_outcome env p \<noteq> Inr []) (packages_in pending_list)))))"
proof -
  from upgrade_available_run[OF assms] obtain pending s2 where
    uc: "upgrade_confirmed env confirmed (packages_in pending_list) s1 = (Inr pending, s2)"
    and pp: "persisted_pending f' root = Inr (PList (map serialize_full pending))"
    by blast
  have one: "distinct (packages_in pending_list) \<longrightarrow>
           persisted_pending f' root
             = Inr (PList (map serialize_full
                 (filter (\<lambda>p. \<not> (p \<in> set confirmed \<and> upgrade_outcome env p = Inr []))
                    (packages_in pending_list))))"
    using upgrade_confirmed_distinct[OF uc] pp by simp
  have two: "assume_yes \<and> selection = [] \<longrightarrow>
           persisted_pending f' root
             = Inr (PList (map serialize_full
                 (filter (\<lambda>p. upgrade_outcome env p \<noteq> Inr []) (packages_in pending_list))))"
  proof
    assume a: "assume_yes \<and> selection = []"
    then have "confirmed = packages_in pending_list"
      using assms(4) confirm_upgrades_yes by simp
    then have "upgrade_confirmed env (packages_in pending_list) ([] @ packages_in pending_list) s1
                 = (Inr pending, s2)"
      using uc by simp
    from upgrade_confirmed_all[OF this] have
      "pending = filter (\<lambda>p. upgrade_outcome env p \<noteq> Inr []) (packages_in pending_list)"
      by simp
    then show "persisted_pending f' root
             = Inr (PList (map serialize_full
                 (filter (\<lambda>p. upgrade_outcome env p \<noteq> Inr []) (packages_in pending_list))))"
      using pp by simp
  qed
  from one two show ?thesis by simp
qed

text \<open>
  C4, at a failing input. The ledger holds three pending packages for the root
  \<open>/mm\<close>, every one is confirmed (\<open>assume_yes\<close>), and \<open>git pull\<close> fails for the
  second with a non-zero return code and nothing on the standard error stream.
  \<open>upgrade_package\<close> reports \<open>Failed to upgrade\<close> and returns the empty error text;
  \<open>upgrade_available\<close> takes that for a success and removes the package, so the
  persisted pending list is empty although the upgrade of the second package failed.
  When the same pull fails with a message on the standard error stream, the persisted
  pending list is exactly the second package.
\<close>

theorem upgrade_available_silent_failure:
  "pull silent_failure (directory pending_b) = Inr (1, [], [])
   \<and> upgrade_available silent_failure ''/mm'' True [] (console []) pending_ledger
     = (Inr True,
        \<lparr>stdin = [], trace = [ErrorMsg ''Failed to upgrade MagicMirror'', ErrorMsg []]\<rparr>,
        Some (Json (PDict
          [(MMPM, PBool False),
           (''/mm'', PDict [(PACKAGES, PList []), (MAGICMIRROR, PBool False)])])))
   \<and> persisted_pending
        (snd (snd (upgrade_available silent_failure ''/mm'' True [] (console []) pending_ledger)))
        ''/mm''
     = Inr (PList [])
   \<and> persisted_pending
        (snd (snd (upgrade_available second_fails ''/mm'' True [] (console []) pending_ledger)))
        ''/mm''
     = Inr (PList [serialize_full pending_b])"
  by (simp add: ev3 ev4)

end
